theory Spec2Isabelle
  imports Complex_Main
begin

section \<open>transform.py: Python arithmetic\<close>

text \<open>
  The module computes with Python floats (and \<open>Decimal\<close> in three places). Floats and
  decimals are modelled by exact real numbers: every statement below is about the
  formulas of transform.py evaluated in exact arithmetic, not about binary rounding,
  overflow or underflow. What is kept from Python is which operations raise:
  \<open>x / 0\<close> raises ZeroDivisionError, \<open>math.sqrt\<close> of a negative number and
  \<open>math.log\<close> of a non-positive number raise ValueError. Each such operation is guarded
  in the model, in the order of the source; a square root whose argument is a sum of
  squares carries no guard.

  Two values differ from Python's at isolated points and no statement below depends on
  them: \<open>tan\<close> at an odd multiple of \<open>pi / 2\<close> is 0 in HOL, where \<open>math.tan\<close> of the
  nearest float is a large finite number (neither raises), and \<open>atan2\<close> ignores the
  sign of a floating-point zero.

  The first two constructors of \<open>error\<close> are the exceptions transform.py can raise. The
  last three are the error kinds named by the specification; no statement of
  transform.py raises them, and they are here so that statements about them can be
  written down.
\<close>

datatype error = ZeroDivisionError | ValueError
  | InvalidEllipsoid | InvalidLatitude | NonConvergence

text \<open>\<open>int(x)\<close> of a float: truncation towards zero.\<close>

definition py_int :: "real \<Rightarrow> int" where
  "py_int x = (if x < 0 then - \<lfloor>- x\<rfloor> else \<lfloor>x\<rfloor>)"

text \<open>\<open>round(x, k)\<close>: the nearest multiple of \<open>10^-k\<close>, a tie going to the even one.\<close>

definition py_round :: "real \<Rightarrow> nat \<Rightarrow> real" where
  "py_round x k =
     (let s = x * 10 ^ k; fl = \<lfloor>s\<rfloor>; r = s - of_int fl
      in of_int (if r < 1 / 2 then fl
                 else if 1 / 2 < r then fl + 1
                 else if even fl then fl else fl + 1) / 10 ^ k)"

definition radians :: "real \<Rightarrow> real" where
  "radians d = d * pi / 180"



section \<open>Projection parameters and module-level constants\<close>

text \<open>
  \<open>proj = grs80\<close> is a seven-element tuple imported from the module \<open>constants\<close>.
  The fields are named after their use in transform.py: \<open>proj[0]\<close> is the semi-major
  axis, \<open>proj[1]\<close> the inverse flattening, \<open>proj[2]\<close> and \<open>proj[3]\<close> the false easting
  and northing, \<open>proj[4]\<close> the central scale factor, \<open>proj[5]\<close> the zone width and
  \<open>proj[6]\<close> the central meridian from which zones are counted.
\<close>

record proj =
  semi_major :: real
  inv_flattening :: real
  false_easting :: real
  false_northing :: real
  central_scale :: real
  zone_width :: real
  zone_origin :: real

text \<open>
  Modelled from the spec: the tuple \<open>grs80\<close> of the module \<open>constants\<close>, which is not
  part of the source at hand. The specification gives the default configuration as a
  GRS80-based UTM setup with zone width 6, scale factor 0.9996, false easting 500000,
  false northing 10000000 (southern) and origin -177; the ellipsoid numbers are the
  defining values of GRS80. It is used for concrete instances only; every general
  statement below takes the tuple as a parameter.
\<close>

definition grs80 :: proj where
  "grs80 = \<lparr> semi_major = 6378137, inv_flattening = 298.257222101,
             false_easting = 500000, false_northing = 10000000,
             central_scale = 0.9996, zone_width = 6, zone_origin = - 177 \<rparr>"

text \<open>Rectifying radius, divided by \<open>proj[0] / (1 + n)\<close> (Horner form, lines 74 to 81).\<close>

definition A_poly :: "real \<Rightarrow> real" where
  "A_poly n2 = (n2 * (n2 * (n2 * (25 * n2 + 64) + 256) + 4096) + 16384) / 16384"

text \<open>Alpha coefficients (lines 84 to 151), as functions of \<open>n\<close>.\<close>

definition a2 :: "real \<Rightarrow> real" where
  "a2 n = (n * (n * (n * (n * (n * (n * ((37884525 - 75900428 * n) * n + 42422016)
            - 89611200) + 46287360) + 63504000) - 135475200) + 101606400)) / 203212800"

definition a4 :: "real \<Rightarrow> real" where
  "a4 n = (n\<^sup>2 * (n * (n * (n * (n * (n * (148003883 * n + 83274912) - 178508970)
            + 77690880) + 67374720) - 104509440) + 47174400)) / 174182400"

definition a6 :: "real \<Rightarrow> real" where
  "a6 n = (n ^ 3 * (n * (n * (n * (n * (318729724 * n - 738126169) + 294981280)
            + 178924680) - 234938880) + 81164160)) / 319334400"

definition a8 :: "real \<Rightarrow> real" where
  "a8 n = (n ^ 4 * (n * (n * ((14967552000 - 40176129013 * n) * n + 6971354016)
            - 8165836800) + 2355138720)) / 7664025600"

definition a10 :: "real \<Rightarrow> real" where
  "a10 n = (n ^ 5 * (n * (n * (10421654396 * n + 3997835751) - 4266773472)
            + 1072709352)) / 2490808320"

definition a12 :: "real \<Rightarrow> real" where
  "a12 n = (n ^ 6 * (n * (175214326799 * n - 171950693600) + 38652967262)) / 58118860800"

definition a14 :: "real \<Rightarrow> real" where
  "a14 n = (n ^ 7 * (13700311101 - 67039739596 * n)) / 12454041600"

definition a16 :: "real \<Rightarrow> real" where
  "a16 n = (1424729850961 * n ^ 8) / 743921418240"









text \<open>
  The constants computed when the module is loaded (lines 60 to 81). A field \<open>m_x\<close> is
  the module-level name \<open>x\<close>.
\<close>

record module_consts =
  m_proj :: proj
  m_f :: real
  m_semi_maj :: real
  m_semi_min :: real
  m_ecc1sq :: real
  m_ecc2sq :: real
  m_ecc1 :: real
  m_n :: real
  m_n2 :: real
  m_A :: real

text \<open>
  Loading the module: the assignments of lines 60 to 81 in order. An exception raised
  by one of them aborts the import, so none of the functions can be called.
\<close>

definition module_init :: "proj \<Rightarrow> error + module_consts" where
  "module_init p =
     (if inv_flattening p = 0 then Inl ZeroDivisionError else
      let f = 1 / inv_flattening p;
          semi_maj = semi_major p;
          semi_min = semi_maj * (1 - f);
          ecc1sq = f * (2 - f)
      in if 1 - ecc1sq = 0 then Inl ZeroDivisionError else
      let ecc2sq = ecc1sq / (1 - ecc1sq)
      in if ecc1sq < 0 then Inl ValueError else
      let ecc1 = sqrt ecc1sq
      in if 2 - f = 0 then Inl ZeroDivisionError else
      let n = f / (2 - f);
          n2 = n\<^sup>2
      in if 1 + n = 0 then Inl ZeroDivisionError else
      let A = semi_major p / (1 + n) * A_poly n2
      in Inr \<lparr> m_proj = p, m_f = f, m_semi_maj = semi_maj, m_semi_min = semi_min,
               m_ecc1sq = ecc1sq, m_ecc2sq = ecc2sq, m_ecc1 = ecc1,
               m_n = n, m_n2 = n2, m_A = A \<rparr>)"

section \<open>geo2grid\<close>

text \<open>Line 229: the zone number.\<close>

definition geo2grid_zone :: "proj \<Rightarrow> real \<Rightarrow> error + int" where
  "geo2grid_zone p long =
     (if zone_width p = 0 then Inl ZeroDivisionError
      else Inr (py_int ((long - (zone_origin p - 1.5 * zone_width p)) / zone_width p)))"

text \<open>Line 230: the central meridian of a zone.\<close>

definition geo2grid_centmeridian :: "proj \<Rightarrow> int \<Rightarrow> real" where
  "geo2grid_centmeridian p zone =
     of_int zone * zone_width p + (zone_origin p - zone_width p)"

definition geo2grid :: "module_consts \<Rightarrow> real \<Rightarrow> real \<Rightarrow> error + (int \<times> real \<times> real)" where
  "geo2grid c lat long =
     (let p = m_proj c; ecc1 = m_ecc1 c; n = m_n c; A = m_A c in
      case geo2grid_zone p long of Inl e \<Rightarrow> Inl e | Inr zone \<Rightarrow>
      let centmeridian = geo2grid_centmeridian p zone;
          sigx = (ecc1 * tan (radians lat)) / sqrt (1 + (tan (radians lat))\<^sup>2)
      in if 1 - sigx = 0 then Inl ZeroDivisionError
      else if (1 + sigx) / (1 - sigx) \<le> 0 then Inl ValueError else
      let sig = sinh (ecc1 * (0.5 * ln ((1 + sigx) / (1 - sigx))));
          conf_lat = arctan (tan (radians lat) * sqrt (1 + sig\<^sup>2)
                             - sig * sqrt (1 + (tan (radians lat))\<^sup>2));
          long_diff = radians (long - centmeridian)
      in if cos long_diff = 0 then Inl ZeroDivisionError else
      let xi1 = arctan (tan conf_lat / cos long_diff)
      in if sqrt ((tan conf_lat)\<^sup>2 + (cos long_diff)\<^sup>2) = 0 then Inl ZeroDivisionError else
      let eta1x = sin long_diff / sqrt ((tan conf_lat)\<^sup>2 + (cos long_diff)\<^sup>2)
      in if eta1x + sqrt (1 + eta1x\<^sup>2) \<le> 0 then Inl ValueError else
      let eta1 = ln (eta1x + sqrt (1 + eta1x\<^sup>2));
          eta2 = a2 n * cos (2 * xi1) * sinh (2 * eta1);
          eta4 = a4 n * cos (4 * xi1) * sinh (4 * eta1);
          eta6 = a6 n * cos (6 * xi1) * sinh (6 * eta1);
          eta8 = a8 n * cos (8 * xi1) * sinh (8 * eta1);
          eta10 = a10 n * cos (10 * xi1) * sinh (10 * eta1);
          eta12 = a12 n * cos (12 * xi1) * sinh (12 * eta1);
          eta14 = a14 n * cos (14 * xi1) * sinh (14 * eta1);
          eta16 = a16 n * cos (16 * xi1) * sinh (16 * eta1);
          xi2 = a2 n * sin (2 * xi1) * cosh (2 * eta1);
          xi4 = a4 n * sin (4 * xi1) * cosh (4 * eta1);
          xi6 = a6 n * sin (6 * xi1) * cosh (6 * eta1);
          xi8 = a8 n * sin (8 * xi1) * cosh (8 * eta1);
          xi10 = a10 n * sin (10 * xi1) * cosh (10 * eta1);
          xi12 = a12 n * sin (12 * xi1) * cosh (12 * eta1);
          xi14 = a14 n * sin (14 * xi1) * cosh (14 * eta1);
          xi16 = a16 n * sin (16 * xi1) * cosh (16 * eta1);
          eta = eta1 + eta2 + eta4 + eta6 + eta8 + eta10 + eta12 + eta14 + eta16;
          xi = xi1 + xi2 + xi4 + xi6 + xi8 + xi10 + xi12 + xi14 + xi16;
          x = A * eta;
          y = A * xi;
          east = central_scale p * x + false_easting p;
          north = central_scale p * y + false_northing p
      in Inr (zone, py_round east 5, py_round north 5))"

section \<open>grid2geo\<close>







section \<open>xyz2llh\<close>




section \<open>llh2xyz\<close>

text \<open>Lines 371 to 374: the radius of curvature, from the latitude in radians.\<close>

definition llh2xyz_nu :: "module_consts \<Rightarrow> real \<Rightarrow> error + real" where
  "llh2xyz_nu c lat =
     (if lat = 0 then Inr (semi_major (m_proj c))
      else if 1 - m_ecc1sq c * (sin lat)\<^sup>2 < 0 then Inl ValueError
      else if sqrt (1 - m_ecc1sq c * (sin lat)\<^sup>2) = 0 then Inl ZeroDivisionError
      else Inr (m_semi_maj c / sqrt (1 - m_ecc1sq c * (sin lat)\<^sup>2)))"

definition llh2xyz ::
  "module_consts \<Rightarrow> real \<Rightarrow> real \<Rightarrow> real \<Rightarrow> error + (real \<times> real \<times> real)" where
  "llh2xyz c lat0 long0 ellht =
     (let lat = radians lat0;
          long = radians long0
      in case llh2xyz_nu c lat of Inl e \<Rightarrow> Inl e | Inr nu \<Rightarrow>
      let x = (nu + ellht) * cos lat * cos long;
          y = (nu + ellht) * cos lat * sin long
      in if (m_semi_maj c)\<^sup>2 = 0 then Inl ZeroDivisionError else
      let z = (((m_semi_min c)\<^sup>2 / (m_semi_maj c)\<^sup>2) * nu + ellht) * sin lat
      in Inr (x, y, z))"

section \<open>Reference definitions\<close>

text \<open>The module constants of the default configuration.\<close>

definition grs80_consts :: module_consts where
  "grs80_consts = projr (module_init grs80)"






section \<open>Facts about the module constants\<close>

lemma module_init_Inr_iff:
  "(\<exists>c. module_init p = Inr c) \<longleftrightarrow> 1 / 2 < inv_flattening p \<and> inv_flattening p \<noteq> 1"
proof -
  define i where "i = inv_flattening p"
  have e: "1 / i * (2 - 1 / i) = 1 - (1 - 1 / i)\<^sup>2" by (simp add: power2_eq_square algebra_simps)
  show ?thesis
  proof (cases "i = 0")
    case True then show ?thesis by (simp add: module_init_def i_def)
  next
    case False
    have a: "1 - 1 / i * (2 - 1 / i) = 0 \<longleftrightarrow> i = 1" using False unfolding e by (simp add: field_simps)
    have "1 / i * (2 - 1 / i) = (2 * i - 1) / i\<^sup>2" using False by (simp add: field_simps power2_eq_square)
    then have b: "1 / i * (2 - 1 / i) < 0 \<longleftrightarrow> i < 1/2" 
      using False by (auto simp: divide_less_0_iff)
    have c: "2 - 1 / i = 0 \<longleftrightarrow> i = 1/2" using False by (auto simp: field_simps)
    have d: "1 + 1 / i / (2 - 1 / i) \<noteq> 0" if "i \<noteq> 1/2" 
    proof -
      define dd where "dd = 2 - 1 / i"
      have nz: "dd \<noteq> 0" using c that by (simp add: dd_def)
      have "1 / i = 2 - dd" by (simp add: dd_def)
      then have "1 + 1 / i / (2 - 1 / i) = 1 + (2 - dd) / dd" by (simp add: dd_def)
      also have "\<dots> = 2 / dd" using nz by (simp add: field_simps)
      finally show ?thesis using nz by simp
    qed
    show ?thesis using False a b c d
      by (auto simp: module_init_def Let_def i_def[symmetric])
  qed
qed

lemma module_init_fields:
  assumes "module_init p = Inr c"
  shows "m_proj c = p" and "m_semi_maj c = semi_major p"
    and "m_f c = 1 / inv_flattening p"
    and "m_semi_min c = semi_major p * (1 - 1 / inv_flattening p)"
    and "m_ecc1sq c = 1 / inv_flattening p * (2 - 1 / inv_flattening p)"
    and "m_ecc2sq c = m_ecc1sq c / (1 - m_ecc1sq c)"
    and "m_ecc1 c = sqrt (m_ecc1sq c)"
    and "m_n c = (1 / inv_flattening p) / (2 - 1 / inv_flattening p)"
    and "m_A c = semi_major p / (1 + m_n c) * A_poly ((m_n c)\<^sup>2)"
  using assms by (auto simp: module_init_def Let_def split: if_splits)

lemma module_init_range:
  assumes "module_init p = Inr c"
  shows "1 / 2 < inv_flattening p" and "inv_flattening p \<noteq> 1"
  using module_init_Inr_iff[of p] assms by auto

lemma module_init_ecc1sq:
  assumes "module_init p = Inr c"
  shows "0 < m_ecc1sq c" and "m_ecc1sq c < 1"
proof -
  define i where "i = inv_flattening p"
  have i: "1 / 2 < i" "i \<noteq> 1" using module_init_range[OF assms] by (simp_all add: i_def)
  have e: "m_ecc1sq c = (2 * i - 1) / i\<^sup>2"
    using i module_init_fields(5)[OF assms] by (simp add: i_def field_simps power2_eq_square)
  show "0 < m_ecc1sq c" using i unfolding e by simp
  have "1 - m_ecc1sq c = (i - 1)\<^sup>2 / i\<^sup>2"
    using i unfolding e by (simp add: field_simps power2_eq_square)
  moreover have "0 < (i - 1)\<^sup>2 / i\<^sup>2" using i by simp
  ultimately show "m_ecc1sq c < 1" by simp
qed

lemma module_init_ecc1:
  assumes "module_init p = Inr c"
  shows "0 < m_ecc1 c" and "m_ecc1 c < 1" and "(m_ecc1 c)\<^sup>2 = m_ecc1sq c"
  using module_init_ecc1sq[OF assms] module_init_fields(7)[OF assms]
  by (simp_all add: real_sqrt_lt_1_iff)




lemma abs_over_sqrt_lt_1: "\<bar>t / sqrt (1 + t\<^sup>2)\<bar> < (1::real)"
proof -
  have "\<bar>t\<bar> = sqrt (t\<^sup>2)" by simp
  also have "\<dots> < sqrt (1 + t\<^sup>2)" by (simp del: real_sqrt_abs)
  finally have "\<bar>t\<bar> < sqrt (1 + t\<^sup>2)" .
  moreover have "0 < sqrt (1 + t\<^sup>2)" by (simp add: add_pos_nonneg)
  ultimately show ?thesis by (simp add: abs_divide)
qed

lemma sigx_bound:
  assumes "0 \<le> e" and "e < 1"
  shows "\<bar>(e * t) / sqrt (1 + t\<^sup>2)\<bar> < (1::real)"
proof -
  have "\<bar>(e * t) / sqrt (1 + t\<^sup>2)\<bar> = e * \<bar>t / sqrt (1 + t\<^sup>2)\<bar>"
    using assms by (simp add: abs_mult abs_divide)
  also have "\<dots> \<le> 1 * \<bar>t / sqrt (1 + t\<^sup>2)\<bar>"
    using assms by (intro mult_right_mono) simp_all
  also have "\<dots> < 1" using abs_over_sqrt_lt_1[of t] by simp
  finally show ?thesis .
qed

lemma ratio_pos: "\<bar>u\<bar> < (1::real) \<Longrightarrow> 0 < (1 + u) / (1 - u)"
  by (simp add: abs_less_iff)

lemma asinh_arg_pos: "0 < x + sqrt (1 + x\<^sup>2)" for x :: real
proof -
  have "\<bar>x\<bar> = sqrt (x\<^sup>2)" by simp
  also have "\<dots> < sqrt (1 + x\<^sup>2)" by (simp del: real_sqrt_abs)
  finally show ?thesis by linarith
qed




section \<open>Facts about geo2grid\<close>

lemma geo2grid_zone_component:
  assumes "geo2grid c lat long = Inr (zone, east, north)"
  shows "geo2grid_zone (m_proj c) long = Inr zone"
  using assms unfolding geo2grid_def Let_def
  by (auto split: sum.splits if_splits)


lemma geo2grid_total:
  assumes init: "module_init p = Inr c"
  shows "geo2grid c lat long =
           (case geo2grid_zone p long of Inl e \<Rightarrow> Inl e
            | Inr zone \<Rightarrow>
                if cos (radians (long - geo2grid_centmeridian p zone)) = 0
                then Inl ZeroDivisionError
                else Inr (zone, snd (projr (geo2grid c lat long))))"
proof (cases "geo2grid_zone p long")
  case (Inl e)
  then show ?thesis by (simp add: geo2grid_def module_init_fields(1)[OF init])
next
  case (Inr zone)
  define sigx where "sigx = (m_ecc1 c * tan (radians lat)) / sqrt (1 + (tan (radians lat))\<^sup>2)"
  have sx: "\<bar>sigx\<bar> < 1" unfolding sigx_def
    using sigx_bound[of "m_ecc1 c" "tan (radians lat)"] module_init_ecc1[OF init] by simp
  have g1: "1 - sigx \<noteq> 0" using sx by auto
  have g2: "\<not> (1 + sigx) / (1 - sigx) \<le> 0"
    using ratio_pos[OF sx] by (simp add: not_le)
  show ?thesis
  proof (cases "cos (radians (long - geo2grid_centmeridian p zone)) = 0")
    case True
    then show ?thesis using Inr g1 g2
      by (simp add: geo2grid_def Let_def module_init_fields(1)[OF init] sigx_def[symmetric])
  next
    case False
    have g3: "\<And>t. sqrt (t\<^sup>2 + (cos (radians (long - geo2grid_centmeridian p zone)))\<^sup>2) \<noteq> 0"
      using False by (simp add: sum_power2_eq_zero_iff)
    have g4: "\<And>x::real. \<not> x + sqrt (1 + x\<^sup>2) \<le> 0"
      using asinh_arg_pos by (simp add: not_le)
    show ?thesis using Inr g1 g2 False g3 g4
      by (simp add: geo2grid_def Let_def module_init_fields(1)[OF init] sigx_def[symmetric])
  qed
qed

lemma module_init_grs80: "module_init grs80 = Inr grs80_consts"
proof -
  have "\<exists>c. module_init grs80 = Inr c"
    unfolding module_init_Inr_iff by (simp add: grs80_def)
  then show ?thesis by (auto simp: grs80_consts_def)
qed




lemma geo2grid_zone_part:
  assumes init: "module_init p = Inr c"
  shows "map_sum id fst (geo2grid c lat long) =
           (case geo2grid_zone p long of Inl e \<Rightarrow> Inl e
            | Inr zone \<Rightarrow>
                if cos (radians (long - geo2grid_centmeridian p zone)) = 0
                then Inl ZeroDivisionError else Inr zone)"
  by (subst geo2grid_total[OF init]) (simp split: sum.splits)





section \<open>The zone number of geo2grid\<close>

lemma py_round_of_int: "py_round (of_int i) k = of_int i"
proof -
  have "(of_int i :: real) * 10 ^ k = of_int (i * 10 ^ k)" by simp
  then have fl: "\<lfloor>(of_int i :: real) * 10 ^ k\<rfloor> = i * 10 ^ k" by (metis floor_of_int)
  show ?thesis unfolding py_round_def Let_def fl by simp
qed

lemma geo2grid_on_meridian:
  assumes init: "module_init p = Inr c"
    and zone: "geo2grid_zone p long = Inr zone"
    and cm: "long = geo2grid_centmeridian p zone"
    and lat: "tan (radians lat) = 0"
  shows "geo2grid c lat long =
           Inr (zone, py_round (false_easting p) 5, py_round (false_northing p) 5)"
  using zone cm[symmetric] lat
  by (simp add: geo2grid_def Let_def module_init_fields(1)[OF init] radians_def)

lemma geo2grid_grs80_zone1:
  "geo2grid grs80_consts 0 (- 177) = Inr (1, 500000, 10000000)"
proof -
  have z: "geo2grid_zone grs80 (- 177) = Inr 1"
    by (simp add: geo2grid_zone_def grs80_def py_int_def)
  have cm: "- 177 = geo2grid_centmeridian grs80 1"
    by (simp add: geo2grid_centmeridian_def grs80_def)
  have r: "py_round 500000 5 = 500000" "py_round 10000000 5 = 10000000"
    using py_round_of_int[of 500000 5] py_round_of_int[of 10000000 5] by simp_all
  show ?thesis
    using geo2grid_on_meridian[OF module_init_grs80 z cm, of 0] r
    by (simp add: radians_def grs80_def)
qed




text \<open>
  Claim C8. Once the module has loaded, the zone component of geo2grid (or the
  exception it raises before producing one) is the same for any two latitudes at the
  same longitude, and a returned zone is the value of line 229, which reads the
  longitude, the zone width and the origin only.
\<close>

theorem geo2grid_zone_determinism:
  assumes "module_init p = Inr c"
  shows "map_sum id fst (geo2grid c lat1 long) = map_sum id fst (geo2grid c lat2 long)
       \<and> (\<forall>zone east north. geo2grid c lat1 long = Inr (zone, east, north)
            \<longrightarrow> geo2grid_zone p long = Inr zone)"
  using geo2grid_zone_component[of c lat1 long]
  by (simp add: geo2grid_zone_part[OF assms] module_init_fields(1)[OF assms])

theorem geo2grid_zone_determinism_witness:
  "module_init grs80 = Inr grs80_consts
   \<and> map_sum id fst (geo2grid grs80_consts (- 35) 149) = map_sum id fst (geo2grid grs80_consts 10 149)
   \<and> geo2grid grs80_consts 0 (- 177) = Inr (1, 500000, 10000000)
   \<and> geo2grid_zone grs80 (- 177) = Inr 1"
  using geo2grid_zone_determinism[OF module_init_grs80, of "- 35" 149 10]
    geo2grid_zone_determinism[OF module_init_grs80, of 0 "- 177" 0]
    module_init_grs80 geo2grid_grs80_zone1
  by simp




section \<open>Ellipsoid parameters, the polar axis and llh2xyz\<close>








lemma llh2xyz_nu_ok:
  assumes init: "module_init p = Inr c"
  shows "llh2xyz_nu c lat = Inr (semi_major p / sqrt (1 - m_ecc1sq c * (sin lat)\<^sup>2))"
    and "0 < 1 - m_ecc1sq c * (sin lat)\<^sup>2"
proof -
  have "(sin lat)\<^sup>2 \<le> 1" by (simp add: abs_square_le_1)
  then have "m_ecc1sq c * (sin lat)\<^sup>2 \<le> m_ecc1sq c * 1"
    using module_init_ecc1sq(1)[OF init] by (intro mult_left_mono) simp_all
  with module_init_ecc1sq(2)[OF init] show pos: "0 < 1 - m_ecc1sq c * (sin lat)\<^sup>2"
    by linarith
  then show "llh2xyz_nu c lat = Inr (semi_major p / sqrt (1 - m_ecc1sq c * (sin lat)\<^sup>2))"
    by (simp add: llh2xyz_nu_def module_init_fields(1,2)[OF init])
qed

lemma llh2xyz_value:
  assumes "module_init p = Inr c" and "semi_major p \<noteq> 0"
  shows "llh2xyz c lat long h =
           Inr (let a = semi_major p; f = 1 / inv_flattening p; b = a * (1 - f);
                    e1sq = f * (2 - f);
                    phi = radians lat; lam = radians long;
                    nu = a / sqrt (1 - e1sq * (sin phi)\<^sup>2)
                in ((nu + h) * cos phi * cos lam,
                    (nu + h) * cos phi * sin lam,
                    ((b\<^sup>2 / a\<^sup>2) * nu + h) * sin phi))"
  using assms(2) llh2xyz_nu_ok(1)[OF assms(1)]
  by (simp add: llh2xyz_def Let_def module_init_fields[OF assms(1)])

text \<open>
  Claim C7. For a loaded module with non-zero semi-major axis, llh2xyz returns, for
  every latitude, longitude and height, the closed-form coordinates with
  \<open>nu = a / sqrt(1 - e1^2 sin^2 lat)\<close>, \<open>e1^2 = f(2 - f)\<close> and \<open>b = a(1 - f)\<close>; no
  exception is possible and nothing iterates. At latitude 0 the branch of line 372
  takes \<open>nu = a\<close>, which is the value of the formula there.
\<close>

theorem llh2xyz_closed_form:
  assumes "module_init p = Inr c" and "semi_major p \<noteq> 0"
  shows "llh2xyz c lat long h =
           Inr (let a = semi_major p; f = 1 / inv_flattening p; b = a * (1 - f);
                    e1sq = f * (2 - f);
                    phi = radians lat; lam = radians long;
                    nu = a / sqrt (1 - e1sq * (sin phi)\<^sup>2)
                in ((nu + h) * cos phi * cos lam,
                    (nu + h) * cos phi * sin lam,
                    ((b\<^sup>2 / a\<^sup>2) * nu + h) * sin phi))
       \<and> llh2xyz_nu c (radians 0) = Inr (semi_major p)"
  using llh2xyz_value[OF assms, of lat long h]
  by (simp add: llh2xyz_nu_def radians_def module_init_fields(1)[OF assms(1)])

theorem llh2xyz_closed_form_witness:
  "module_init grs80 = Inr grs80_consts \<and> semi_major grs80 \<noteq> 0
   \<and> llh2xyz grs80_consts 0 0 0 = Inr (6378137, 0, 0)
   \<and> llh2xyz_nu grs80_consts (radians 0) = Inr 6378137"
proof -
  have nz: "semi_major grs80 \<noteq> 0" by (simp add: grs80_def)
  show ?thesis
    using llh2xyz_closed_form[OF module_init_grs80 nz, of 0 0 0] module_init_grs80 nz
    by (simp add: radians_def grs80_def)
qed

section \<open>Latitudes outside the valid range\<close>








section \<open>The Newton steps of grid2geo\<close>




















section \<open>The latitude loop of xyz2llh\<close>













end
